theory Spec2Isabelle
  imports Main
begin

section \<open>Python values, exceptions and the outside world\<close>

text \<open>
  The methods of \<open>AIScribe\<close> (src/scribe.py) return either \<open>None\<close> or a \<open>str\<close>, or they
  leave by an exception. A returned value is \<open>Inr\<close>, a raised exception is \<open>Inl\<close>.
  The three exception classes that \<open>transcribe_audio\<close> catches are constructors of their
  own; \<open>IndexError\<close> and \<open>KeyError\<close> are what the subscripts \<open>[0]\<close> and \<open>['...']\<close>
  raise; every other exception a library may raise is \<open>OtherException\<close>.
\<close>

datatype pyval = PyNone | PyStr string

datatype exn =
    UnknownValueError
  | RequestError string
  | FileNotFoundError
  | IndexError
  | KeyError string
  | OtherException string

datatype kwarg = KInt int | KBool bool

type_synonym dict = "string \<rightharpoonup> string"

text \<open>
  The calls that leave the program, in the order they are made, and what \<open>print\<close> wrote.
  The world \<open>'w\<close> is whatever the libraries read and change (files, network, model state).
\<close>

datatype call =
    AudioFileCall string
  | RecordCall
  | RecognizeGoogleCall
  | SummaryModelCall string "(string \<times> kwarg) list"
  | TranslationModelCall string

record 'w env =
  world :: 'w
  calls :: "call list"
  stdout :: "string list"

type_synonym ('r, 'w) ext_call = "'w \<Rightarrow> (exn + 'r) \<times> 'w"

type_synonym 'w pipeline = "string \<Rightarrow> (string \<times> kwarg) list \<Rightarrow> (dict list, 'w) ext_call"

text \<open>
  The object: \<open>self.recognizer\<close> (with the two methods the code calls on it),
  \<open>self.summary_model\<close> and \<open>self.translation_model\<close>. \<open>sr.AudioFile\<close> belongs to the
  module \<open>speech_recognition\<close>, not to the object, and is a parameter of its own.
  \<open>'s\<close> is the opened audio source, \<open>'a\<close> the recorded audio data.
\<close>

record ('s, 'a, 'w) Recognizer =
  record_audio :: "'s \<Rightarrow> ('a, 'w) ext_call"
  recognize_google :: "'a \<Rightarrow> (string, 'w) ext_call"

record ('s, 'a, 'w) AIScribe =
  recognizer :: "('s, 'a, 'w) Recognizer"
  summary_model :: "'w pipeline"
  translation_model :: "'w pipeline"

type_synonym ('s, 'a, 'w) result = "(exn + pyval) \<times> ('s, 'a, 'w) AIScribe \<times> 'w env"

definition outcome :: "('s, 'a, 'w) result \<Rightarrow> exn + pyval" where
  "outcome r = fst r"

definition self_after :: "('s, 'a, 'w) result \<Rightarrow> ('s, 'a, 'w) AIScribe" where
  "self_after r = fst (snd r)"

definition env_after :: "('s, 'a, 'w) result \<Rightarrow> 'w env" where
  "env_after r = snd (snd r)"

definition ext :: "call \<Rightarrow> ('r, 'w) ext_call \<Rightarrow> 'w env \<Rightarrow> (exn + 'r) \<times> 'w env" where
  "ext c f e =
     (case f (world e) of
        (r, w') \<Rightarrow> (r, e\<lparr>world := w', calls := calls e @ [c]\<rparr>))"

definition print :: "string \<Rightarrow> 'w env \<Rightarrow> 'w env" where
  "print line e = e\<lparr>stdout := stdout e @ [line]\<rparr>"

definition first_field :: "string \<Rightarrow> dict list \<Rightarrow> exn + pyval" where
  "first_field key res =
     (case res of
        [] \<Rightarrow> Inl IndexError
      | d # _ \<Rightarrow> (case d key of None \<Rightarrow> Inl (KeyError key) | Some v \<Rightarrow> Inr (PyStr v)))"

section \<open>The methods of AIScribe\<close>

text \<open>The body of the \<open>try\<close> block of \<open>transcribe_audio\<close>.\<close>

definition transcribe_try ::
  "(string \<Rightarrow> ('s, 'w) ext_call) \<Rightarrow> ('s, 'a, 'w) AIScribe \<Rightarrow> string \<Rightarrow> 'w env
     \<Rightarrow> (exn + pyval) \<times> 'w env" where
  "transcribe_try AudioFile self audio_file_path e =
     (case ext (AudioFileCall audio_file_path) (AudioFile audio_file_path) e of
        (Inl x, e1) \<Rightarrow> (Inl x, e1)
      | (Inr source, e1) \<Rightarrow>
          (case ext RecordCall (record_audio (recognizer self) source) e1 of
             (Inl x, e2) \<Rightarrow> (Inl x, e2)
           | (Inr audio_data, e2) \<Rightarrow>
               (case ext RecognizeGoogleCall
                       (recognize_google (recognizer self) audio_data) e2 of
                  (Inl x, e3) \<Rightarrow> (Inl x, e3)
                | (Inr text, e3) \<Rightarrow> (Inr (PyStr text), e3))))"

definition transcribe_audio ::
  "(string \<Rightarrow> ('s, 'w) ext_call) \<Rightarrow> ('s, 'a, 'w) AIScribe \<Rightarrow> string \<Rightarrow> 'w env
     \<Rightarrow> ('s, 'a, 'w) result" where
  "transcribe_audio AudioFile self audio_file_path e =
     (case transcribe_try AudioFile self audio_file_path e of
        (Inl UnknownValueError, e') \<Rightarrow>
          (Inr PyNone, self, print ''Speech recognition could not understand audio'' e')
      | (Inl (RequestError m), e') \<Rightarrow>
          (Inr PyNone, self,
           print (''Could not request results from Google Speech Recognition service; '' @ m) e')
      | (Inl FileNotFoundError, e') \<Rightarrow>
          (Inr PyNone, self, print (''File not found: '' @ audio_file_path) e')
      | (r, e') \<Rightarrow> (r, self, e'))"

text \<open>The exceptions that the \<open>except\<close> clauses of \<open>transcribe_audio\<close> catch.\<close>

fun caught :: "exn \<Rightarrow> bool" where
  "caught UnknownValueError = True"
| "caught (RequestError m) = True"
| "caught FileNotFoundError = True"
| "caught _ = False"

definition summarize_text ::
  "('s, 'a, 'w) AIScribe \<Rightarrow> string \<Rightarrow> 'w env \<Rightarrow> ('s, 'a, 'w) result" where
  "summarize_text self text e =
     (case ext (SummaryModelCall text
                  [(''max_length'', KInt 150), (''min_length'', KInt 30),
                   (''do_sample'', KBool False)])
               (summary_model self text
                  [(''max_length'', KInt 150), (''min_length'', KInt 30),
                   (''do_sample'', KBool False)]) e of
        (Inl x, e') \<Rightarrow> (Inl x, self, e')
      | (Inr summary, e') \<Rightarrow> (first_field ''summary_text'' summary, self, e'))"

definition translate_text ::
  "('s, 'a, 'w) AIScribe \<Rightarrow> string \<Rightarrow> string option \<Rightarrow> 'w env \<Rightarrow> ('s, 'a, 'w) result" where
  "translate_text self text target_language_arg e =
     (let target_language = (case target_language_arg of None \<Rightarrow> ''fr'' | Some l \<Rightarrow> l) in
      if target_language = ''fr'' then
        (case ext (TranslationModelCall text) (translation_model self text []) e of
           (Inl x, e') \<Rightarrow> (Inl x, self, e')
         | (Inr res, e') \<Rightarrow> (first_field ''translation_text'' res, self, e'))
      else
        (Inr (PyStr ''Target language not supported''), self,
         print ''Target language not currently supported. Only French is supported'' e))"

text \<open>
  \<open>process(self, input_data, task="transcribe", target_language="fr")\<close>: an argument
  the caller leaves out is \<open>None\<close> here and takes the default of the signature.
\<close>

definition process ::
  "(string \<Rightarrow> ('s, 'w) ext_call) \<Rightarrow> ('s, 'a, 'w) AIScribe \<Rightarrow> string
     \<Rightarrow> string option \<Rightarrow> string option \<Rightarrow> 'w env \<Rightarrow> ('s, 'a, 'w) result" where
  "process AudioFile self input_data task_arg target_language_arg e =
     (let task = (case task_arg of None \<Rightarrow> ''transcribe'' | Some t \<Rightarrow> t);
          target_language = (case target_language_arg of None \<Rightarrow> ''fr'' | Some l \<Rightarrow> l)
      in if task = ''transcribe'' then transcribe_audio AudioFile self input_data e
         else if task = ''summarize'' then summarize_text self input_data e
         else if task = ''translate'' then
           translate_text self input_data (Some target_language) e
         else (Inr (PyStr ''Invalid task.''), self, e))"


section \<open>Sessions of calls on one object\<close>

text \<open>
  A caller may invoke the four public methods in any order. \<open>run_calls\<close> makes the calls
  one after the other, handing each the object and the environment the previous one left
  (also after an exception, as a caller that catches it would), and lists what each call
  gave back.
\<close>

datatype invocation =
    CallProcess string "string option" "string option"
  | CallTranscribe string
  | CallSummarize string
  | CallTranslate string "string option"

fun invoke ::
  "(string \<Rightarrow> ('s, 'w) ext_call) \<Rightarrow> invocation \<Rightarrow> ('s, 'a, 'w) AIScribe \<Rightarrow> 'w env
     \<Rightarrow> ('s, 'a, 'w) result" where
  "invoke AudioFile (CallProcess x task lang) self e = process AudioFile self x task lang e"
| "invoke AudioFile (CallTranscribe x) self e = transcribe_audio AudioFile self x e"
| "invoke AudioFile (CallSummarize x) self e = summarize_text self x e"
| "invoke AudioFile (CallTranslate x lang) self e = translate_text self x lang e"

fun run_calls ::
  "(string \<Rightarrow> ('s, 'w) ext_call) \<Rightarrow> invocation list \<Rightarrow> ('s, 'a, 'w) AIScribe \<Rightarrow> 'w env
     \<Rightarrow> ('s, 'a, 'w) result list" where
  "run_calls AudioFile [] self e = []"
| "run_calls AudioFile (c # cs) self e =
     (let r = invoke AudioFile c self e
      in r # run_calls AudioFile cs (self_after r) (env_after r))"

section \<open>Stub providers\<close>

text \<open>
  Providers for concrete runs: an audio library that does not find \<open>missing.wav\<close>
  and cannot decode \<open>notes.txt\<close>, a
  recognizer that does not understand \<open>noise.wav\<close> and cannot reach its service for
  \<open>offline.wav\<close>, a summarizer that answers every text, a translator into French, and a
  second object whose two models are out of service.
\<close>

definition summary_kwargs :: "(string \<times> kwarg) list" where
  "summary_kwargs =
     [(''max_length'', KInt 150), (''min_length'', KInt 30), (''do_sample'', KBool False)]"

definition bonjour :: string where
  "bonjour = ''Bonjour, comment '' @ [CHR 0xC3, CHR 0xA7] @ ''a va?''"

definition stub_AudioFile :: "string \<Rightarrow> (string, unit) ext_call" where
  "stub_AudioFile path w =
     (if path = ''missing.wav'' then Inl FileNotFoundError
      else if path = ''notes.txt'' then Inl (OtherException ''Audio file could not be read'')
      else Inr path, w)"

definition stub_recognizer :: "(string, string, unit) Recognizer" where
  "stub_recognizer =
     \<lparr>record_audio = (\<lambda>source w. (Inr source, w)),
      recognize_google = (\<lambda>audio_data w.
        (if audio_data = ''noise.wav'' then Inl UnknownValueError
         else if audio_data = ''offline.wav'' then Inl (RequestError ''no connection'')
         else Inr ''hello world'', w))\<rparr>"

definition stub_scribe :: "(string, string, unit) AIScribe" where
  "stub_scribe =
     \<lparr>recognizer = stub_recognizer,
      summary_model = (\<lambda>text kwargs w. (Inr [[''summary_text'' \<mapsto> ''A summary.'']], w)),
      translation_model = (\<lambda>text kwargs w. (Inr [[''translation_text'' \<mapsto> bonjour]], w))\<rparr>"

definition down_scribe :: "(string, string, unit) AIScribe" where
  "down_scribe =
     \<lparr>recognizer = stub_recognizer,
      summary_model = (\<lambda>text kwargs w. (Inl (OtherException ''model not loaded''), w)),
      translation_model = (\<lambda>text kwargs w. (Inl (OtherException ''model not loaded''), w))\<rparr>"

definition env0 :: "unit env" where
  "env0 = \<lparr>world = (), calls = [], stdout = []\<rparr>"

section \<open>Properties\<close>

subsection \<open>What each method gives back\<close>

lemma transcribe_audio_self: "self_after (transcribe_audio AudioFile self x e) = self"
  by (simp add: transcribe_audio_def self_after_def split: prod.splits sum.splits exn.splits)

lemma summarize_text_self: "self_after (summarize_text self x e) = self"
  by (simp add: summarize_text_def self_after_def split: prod.splits sum.splits)

lemma translate_text_self: "self_after (translate_text self x lang e) = self"
  by (simp add: translate_text_def self_after_def Let_def split: prod.splits sum.splits)

lemma process_self: "self_after (process AudioFile self x task lang e) = self"
  by (simp add: process_def Let_def transcribe_audio_self summarize_text_self
        translate_text_self)
     (simp add: self_after_def)

lemma invoke_self: "self_after (invoke AudioFile c self e) = self"
  by (cases c)
     (simp_all add: process_self transcribe_audio_self summarize_text_self translate_text_self)

text \<open>
  C10. Called with an input only, \<open>process\<close> takes the defaults \<open>task="transcribe"\<close> and
  \<open>target_language="fr"\<close>, and gives back exactly what \<open>transcribe_audio\<close> gives on that
  input.
\<close>

theorem process_defaults:
  "process AudioFile self x None None e = transcribe_audio AudioFile self x e \<and>
   process AudioFile self x None None e =
     process AudioFile self x (Some ''transcribe'') (Some ''fr'') e"
  by (simp add: process_def)


lemmas model_defs =
  process_def transcribe_audio_def transcribe_try_def summarize_text_def translate_text_def
  ext_def print_def first_field_def outcome_def self_after_def env_after_def

lemmas stub_defs =
  stub_AudioFile_def stub_recognizer_def stub_scribe_def down_scribe_def env0_def
  bonjour_def

text \<open>
  C8. No method assigns to a field of the object: whatever sequence of \<open>process\<close>,
  \<open>transcribe_audio\<close>, \<open>summarize_text\<close> and \<open>translate_text\<close> calls is made, and
  whatever the providers answer or raise, the object after each call of the sequence is
  the object the sequence started with, so its recognizer, summarization model and
  translation model fields are the ones it was built with.
\<close>

theorem registry_never_mutated:
  "map self_after (run_calls AudioFile cs self e) = replicate (length cs) self"
proof (induction cs arbitrary: e)
  case Nil
  show ?case by simp
next
  case (Cons c cs)
  have "self_after (invoke AudioFile c self e) = self"
    by (rule invoke_self)
  with Cons.IH show ?case
    by (simp add: Let_def)
qed

text \<open>
  C9. For every task other than \<open>"translate"\<close> (\<open>"transcribe"\<close>, \<open>"summarize"\<close>, an unknown
  task, or the task left out), \<open>target_language\<close> has no effect: two runs from the same
  environment that differ only in the target language give the same result, the same
  object and the same environment.
\<close>

theorem process_ignores_target_language:
  assumes "task \<noteq> Some ''translate''"
  shows "process AudioFile self x task lang1 e = process AudioFile self x task lang2 e"
  using assms by (cases task) (simp_all add: process_def)

theorem process_ignores_target_language_witness:
  "Some ''summarize'' \<noteq> Some ''translate'' \<and>
   process stub_AudioFile stub_scribe ''Some long text.'' (Some ''summarize'') (Some ''fr'') env0 =
   process stub_AudioFile stub_scribe ''Some long text.'' (Some ''summarize'') (Some ''de'') env0 \<and>
   outcome (process stub_AudioFile stub_scribe ''Some long text.'' (Some ''summarize'')
              (Some ''de'') env0) = Inr (PyStr ''A summary.'')"
  using process_ignores_target_language
          [of "Some ''summarize''" stub_AudioFile stub_scribe "''Some long text.''"
              "Some ''fr''" env0 "Some ''de''"]
  by (simp add: model_defs stub_defs)

text \<open>
  C7 as the specification states it does not hold: the task \<open>"paraphrase"\<close>
  returns an ordinary string; the call does not fail.
\<close>

theorem unknown_task_counterexample:
  "outcome (process stub_AudioFile stub_scribe ''Hello, how are you?'' (Some ''paraphrase'')
              None env0) = Inr (PyStr ''Invalid task.'') \<and>
   \<not> isl (outcome (process stub_AudioFile stub_scribe ''Hello, how are you?''
                     (Some ''paraphrase'') None env0))"
  by (simp add: model_defs stub_defs)

text \<open>
  C7 (as the code has it). A task that is none of \<open>"transcribe"\<close>, \<open>"summarize"\<close>,
  \<open>"translate"\<close> does not fail: \<open>process\<close> returns the ordinary string \<open>"Invalid task."\<close>.
  No external call is made and nothing is printed: the object and the environment are
  the ones the call started with.
\<close>

theorem unknown_task_returns_string:
  assumes "t \<noteq> ''transcribe''" and "t \<noteq> ''summarize''" and "t \<noteq> ''translate''"
  shows "process AudioFile self x (Some t) lang e = (Inr (PyStr ''Invalid task.''), self, e)"
  using assms by (simp add: process_def)

theorem unknown_task_returns_string_witness:
  "''Translate'' \<noteq> ''transcribe'' \<and> ''Translate'' \<noteq> ''summarize'' \<and>
   ''Translate'' \<noteq> ''translate'' \<and>
   process stub_AudioFile stub_scribe ''Hello'' (Some ''Translate'') (Some ''fr'') env0 =
     (Inr (PyStr ''Invalid task.''), stub_scribe, env0)"
  using unknown_task_returns_string
          [of "''Translate''" stub_AudioFile stub_scribe "''Hello''" "Some ''fr''" env0]
  by simp

text \<open>
  C1 as the specification states it does not hold: a translate request into
  \<open>"de"\<close> returns an ordinary string; the call does not fail.
\<close>

theorem translate_unsupported_counterexample:
  "outcome (process stub_AudioFile stub_scribe ''Hello, how are you?'' (Some ''translate'')
              (Some ''de'') env0) = Inr (PyStr ''Target language not supported'') \<and>
   \<not> isl (outcome (process stub_AudioFile stub_scribe ''Hello, how are you?''
                     (Some ''translate'') (Some ''de'') env0))"
  by (simp add: model_defs stub_defs)

text \<open>
  C1 (as the code has it). A translate request whose target language is \<open>"fr"\<close> (given or
  left to the default) returns the \<open>translation_text\<close> of the first result of the
  translation model. A translate request with any other target language does not fail:
  \<open>process\<close> prints a notice and returns the ordinary string
  \<open>"Target language not supported"\<close>; the translation model is not invoked and the world
  is untouched.
\<close>

theorem translate_dispatch:
  "((lang = None \<or> lang = Some ''fr'') \<longrightarrow>
      translation_model self text [] (world e) = (Inr (d # ds), w') \<longrightarrow>
      d ''translation_text'' = Some t \<longrightarrow>
      process AudioFile self text (Some ''translate'') lang e =
        (Inr (PyStr t), self,
         e\<lparr>world := w', calls := calls e @ [TranslationModelCall text]\<rparr>)) \<and>
   (l \<noteq> ''fr'' \<longrightarrow>
      process AudioFile self text (Some ''translate'') (Some l) e =
        (Inr (PyStr ''Target language not supported''), self,
         print ''Target language not currently supported. Only French is supported'' e) \<and>
      calls (env_after (process AudioFile self text (Some ''translate'') (Some l) e)) = calls e \<and>
      world (env_after (process AudioFile self text (Some ''translate'') (Some l) e)) = world e)"
  by (auto simp: model_defs)

theorem translate_dispatch_witness:
  "translation_model stub_scribe ''Hello, how are you?'' [] (world env0) =
     (Inr ([''translation_text'' \<mapsto> bonjour] # []), ()) \<and>
   [''translation_text'' \<mapsto> bonjour] ''translation_text'' = Some bonjour \<and>
   process stub_AudioFile stub_scribe ''Hello, how are you?'' (Some ''translate'') (Some ''fr'') env0 =
     (Inr (PyStr bonjour), stub_scribe,
      env0\<lparr>world := (), calls := calls env0 @ [TranslationModelCall ''Hello, how are you?'']\<rparr>) \<and>
   ''de'' \<noteq> ''fr'' \<and>
   outcome (process stub_AudioFile stub_scribe ''Hello, how are you?'' (Some ''translate'')
              (Some ''de'') env0) = Inr (PyStr ''Target language not supported'') \<and>
   calls (env_after (process stub_AudioFile stub_scribe ''Hello, how are you?''
                       (Some ''translate'') (Some ''de'') env0)) = []"
  using translate_dispatch
          [of "Some ''fr''" stub_scribe "''Hello, how are you?''" env0
              "[''translation_text'' \<mapsto> bonjour]" "[]" "()" bonjour stub_AudioFile "''de''"]
  by (simp add: stub_scribe_def env0_def outcome_def env_after_def print_def)

text \<open>
  C5 as the specification states it does not hold: summarizing the empty string calls the
  summarization model with it and returns the summary the model gives.
\<close>

theorem summarize_empty_counterexample:
  "outcome (process stub_AudioFile stub_scribe [] (Some ''summarize'') None env0) =
     Inr (PyStr ''A summary.'') \<and>
   calls (env_after (process stub_AudioFile stub_scribe [] (Some ''summarize'') None env0)) =
     [SummaryModelCall [] summary_kwargs]"
  by (simp add: model_defs stub_defs summary_kwargs_def)

text \<open>
  C5 (as the code has it). \<open>summarize_text\<close> makes no length check. For every text, the
  empty string included, \<open>process\<close> calls the summarization model once, with the text
  and \<open>max_length=150, min_length=30, do_sample=False\<close>, and gives back the
  \<open>summary_text\<close> of the model's first result; it fails only with the exception the
  model (or the subscripting of its result) raises.
\<close>

theorem summarize_no_length_check:
  assumes "summary_model self text summary_kwargs (world e) = (r, w')"
  shows "process AudioFile self text (Some ''summarize'') lang e =
           ((case r of Inl x \<Rightarrow> Inl x | Inr summary \<Rightarrow> first_field ''summary_text'' summary),
            self, e\<lparr>world := w', calls := calls e @ [SummaryModelCall text summary_kwargs]\<rparr>)"
  using assms
  by (simp add: process_def summarize_text_def ext_def summary_kwargs_def split: sum.splits)

theorem summarize_no_length_check_witness:
  "summary_model stub_scribe [] summary_kwargs (world env0) =
     (Inr [[''summary_text'' \<mapsto> ''A summary.'']], ()) \<and>
   process stub_AudioFile stub_scribe [] (Some ''summarize'') None env0 =
     (Inr (PyStr ''A summary.''), stub_scribe,
      env0\<lparr>world := (), calls := calls env0 @ [SummaryModelCall [] summary_kwargs]\<rparr>)"
  using summarize_no_length_check
          [of stub_scribe "[]" env0 "Inr [[''summary_text'' \<mapsto> ''A summary.'']]" "()"
              stub_AudioFile None]
  by (simp add: stub_scribe_def first_field_def)

text \<open>
  C6 as the specification states it does not hold: an empty text is handed to the
  translation model, and a text given to \<open>"transcribe"\<close> is opened as an audio
  file; both calls return normally.
\<close>

theorem no_validation_counterexample:
  "calls (env_after (process stub_AudioFile stub_scribe [] (Some ''translate'') (Some ''fr'')
                       env0)) = [TranslationModelCall []] \<and>
   outcome (process stub_AudioFile stub_scribe [] (Some ''translate'') (Some ''fr'') env0) =
     Inr (PyStr bonjour) \<and>
   calls (env_after (process stub_AudioFile stub_scribe ''Hello, how are you?''
                       (Some ''transcribe'') None env0)) =
     [AudioFileCall ''Hello, how are you?'', RecordCall, RecognizeGoogleCall] \<and>
   outcome (process stub_AudioFile stub_scribe ''Hello, how are you?'' (Some ''transcribe'')
              None env0) = Inr (PyStr ''hello world'')"
  by (simp add: model_defs stub_defs)

text \<open>
  C6 (as the code has it). \<open>process\<close> validates neither that the input is non-empty nor
  its modality. For every input, the first thing the selected method does is the external
  call on that very input: \<open>sr.AudioFile\<close> for \<open>"transcribe"\<close>, the summarization model for
  \<open>"summarize"\<close>, the translation model for \<open>"translate"\<close> into \<open>"fr"\<close>.
\<close>

theorem process_no_validation:
  "(\<exists>rest. calls (env_after (process AudioFile self x (Some ''transcribe'') lang e)) =
             calls e @ AudioFileCall x # rest) \<and>
   calls (env_after (process AudioFile self x (Some ''summarize'') lang e)) =
     calls e @ [SummaryModelCall x summary_kwargs] \<and>
   calls (env_after (process AudioFile self x (Some ''translate'') (Some ''fr'') e)) =
     calls e @ [TranslationModelCall x]"
  by (auto simp: model_defs summary_kwargs_def split: prod.splits sum.splits exn.splits)

subsection \<open>Failures of transcription\<close>

lemma transcribe_try_open_fails:
  assumes "AudioFile x (world e) = (Inl ex, w1)"
  shows "transcribe_try AudioFile self x e =
           (Inl ex, e\<lparr>world := w1, calls := calls e @ [AudioFileCall x]\<rparr>)"
  using assms by (simp add: transcribe_try_def ext_def)

lemma transcribe_try_recognize_fails:
  assumes "AudioFile x (world e) = (Inr s, w1)"
    and "record_audio (recognizer self) s w1 = (Inr a, w2)"
    and "recognize_google (recognizer self) a w2 = (Inl ex, w3)"
  shows "transcribe_try AudioFile self x e =
           (Inl ex, e\<lparr>world := w3,
                      calls := calls e @ [AudioFileCall x, RecordCall, RecognizeGoogleCall]\<rparr>)"
  using assms by (simp add: transcribe_try_def ext_def)

lemma transcribe_audio_caught:
  assumes "transcribe_try AudioFile self x e = (Inl ex, e')" and "caught ex"
  shows "outcome (transcribe_audio AudioFile self x e) = Inr PyNone"
  using assms by (cases ex) (simp_all add: transcribe_audio_def outcome_def)

lemma transcribe_audio_uncaught:
  assumes "transcribe_try AudioFile self x e = (Inl ex, e')" and "\<not> caught ex"
  shows "transcribe_audio AudioFile self x e = (Inl ex, self, e')"
  using assms by (cases ex) (simp_all add: transcribe_audio_def)

text \<open>
  C4 as the specification states it does not hold: unintelligible audio gives
  \<open>None\<close>, and so do a missing file and an unreachable recognition service: the
  three returned values are equal.
\<close>

theorem transcribe_indistinguishable_counterexample:
  "outcome (process stub_AudioFile stub_scribe ''noise.wav'' (Some ''transcribe'') None env0) =
     Inr PyNone \<and>
   outcome (process stub_AudioFile stub_scribe ''noise.wav'' (Some ''transcribe'') None env0) =
     outcome (process stub_AudioFile stub_scribe ''missing.wav'' (Some ''transcribe'') None env0) \<and>
   outcome (process stub_AudioFile stub_scribe ''noise.wav'' (Some ''transcribe'') None env0) =
     outcome (process stub_AudioFile stub_scribe ''offline.wav'' (Some ''transcribe'') None env0)"
  by (simp add: model_defs stub_defs)

text \<open>
  C4 (as the code has it). A transcribe request whose audio the recognizer reports as
  unintelligible (\<open>UnknownValueError\<close>) does not crash: \<open>process\<close> returns \<open>None\<close>. The
  same \<open>None\<close> is returned when the audio file is not found and when the request to the
  recognition service fails, so the returned value does not tell the three apart; only
  the line printed to standard output does.
\<close>

theorem transcribe_failures_return_None:
  "(AudioFile xu (world e) = (Inr su, wu) \<longrightarrow>
    record_audio (recognizer self) su wu = (Inr au, wu') \<longrightarrow>
    recognize_google (recognizer self) au wu' = (Inl UnknownValueError, wu'') \<longrightarrow>
      process AudioFile self xu (Some ''transcribe'') lang e =
        (Inr PyNone, self,
         print ''Speech recognition could not understand audio''
           (e\<lparr>world := wu'',
              calls := calls e @ [AudioFileCall xu, RecordCall, RecognizeGoogleCall]\<rparr>))) \<and>
   (AudioFile xm (world e) = (Inl FileNotFoundError, wm) \<longrightarrow>
      process AudioFile self xm (Some ''transcribe'') lang e =
        (Inr PyNone, self,
         print (''File not found: '' @ xm)
           (e\<lparr>world := wm, calls := calls e @ [AudioFileCall xm]\<rparr>))) \<and>
   (AudioFile xb (world e) = (Inr sb, wb) \<longrightarrow>
    record_audio (recognizer self) sb wb = (Inr ab, wb') \<longrightarrow>
    recognize_google (recognizer self) ab wb' = (Inl (RequestError m), wb'') \<longrightarrow>
      process AudioFile self xb (Some ''transcribe'') lang e =
        (Inr PyNone, self,
         print (''Could not request results from Google Speech Recognition service; '' @ m)
           (e\<lparr>world := wb'',
              calls := calls e @ [AudioFileCall xb, RecordCall, RecognizeGoogleCall]\<rparr>)))"
proof (intro conjI impI)
  assume "AudioFile xu (world e) = (Inr su, wu)"
    and "record_audio (recognizer self) su wu = (Inr au, wu')"
    and "recognize_google (recognizer self) au wu' = (Inl UnknownValueError, wu'')"
  then show "process AudioFile self xu (Some ''transcribe'') lang e =
        (Inr PyNone, self,
         print ''Speech recognition could not understand audio''
           (e\<lparr>world := wu'',
              calls := calls e @ [AudioFileCall xu, RecordCall, RecognizeGoogleCall]\<rparr>))"
    by (simp add: process_def transcribe_audio_def transcribe_try_recognize_fails)
next
  assume "AudioFile xm (world e) = (Inl FileNotFoundError, wm)"
  then show "process AudioFile self xm (Some ''transcribe'') lang e =
        (Inr PyNone, self,
         print (''File not found: '' @ xm)
           (e\<lparr>world := wm, calls := calls e @ [AudioFileCall xm]\<rparr>))"
    by (simp add: process_def transcribe_audio_def transcribe_try_open_fails)
next
  assume "AudioFile xb (world e) = (Inr sb, wb)"
    and "record_audio (recognizer self) sb wb = (Inr ab, wb')"
    and "recognize_google (recognizer self) ab wb' = (Inl (RequestError m), wb'')"
  then show "process AudioFile self xb (Some ''transcribe'') lang e =
        (Inr PyNone, self,
         print (''Could not request results from Google Speech Recognition service; '' @ m)
           (e\<lparr>world := wb'',
              calls := calls e @ [AudioFileCall xb, RecordCall, RecognizeGoogleCall]\<rparr>))"
    by (simp add: process_def transcribe_audio_def transcribe_try_recognize_fails)
qed

theorem transcribe_failures_return_None_witness:
  "stub_AudioFile ''noise.wav'' (world env0) = (Inr ''noise.wav'', ()) \<and>
   record_audio (recognizer stub_scribe) ''noise.wav'' () = (Inr ''noise.wav'', ()) \<and>
   recognize_google (recognizer stub_scribe) ''noise.wav'' () = (Inl UnknownValueError, ()) \<and>
   process stub_AudioFile stub_scribe ''noise.wav'' (Some ''transcribe'') None env0 =
     (Inr PyNone, stub_scribe,
      \<lparr>world = (), calls = [AudioFileCall ''noise.wav'', RecordCall, RecognizeGoogleCall],
       stdout = [''Speech recognition could not understand audio'']\<rparr>) \<and>
   stub_AudioFile ''missing.wav'' (world env0) = (Inl FileNotFoundError, ()) \<and>
   process stub_AudioFile stub_scribe ''missing.wav'' (Some ''transcribe'') None env0 =
     (Inr PyNone, stub_scribe,
      \<lparr>world = (), calls = [AudioFileCall ''missing.wav''],
       stdout = [''File not found: missing.wav'']\<rparr>) \<and>
   stub_AudioFile ''offline.wav'' (world env0) = (Inr ''offline.wav'', ()) \<and>
   record_audio (recognizer stub_scribe) ''offline.wav'' () = (Inr ''offline.wav'', ()) \<and>
   recognize_google (recognizer stub_scribe) ''offline.wav'' () =
     (Inl (RequestError ''no connection''), ()) \<and>
   process stub_AudioFile stub_scribe ''offline.wav'' (Some ''transcribe'') None env0 =
     (Inr PyNone, stub_scribe,
      \<lparr>world = (), calls = [AudioFileCall ''offline.wav'', RecordCall, RecognizeGoogleCall],
       stdout = [''Could not request results from Google Speech Recognition service; no connection'']\<rparr>)"
  using transcribe_failures_return_None
          [where AudioFile = stub_AudioFile and self = stub_scribe and e = env0 and lang = None
             and xu = "''noise.wav''" and su = "''noise.wav''" and wu = "()"
             and au = "''noise.wav''" and wu' = "()" and wu'' = "()"
             and xm = "''missing.wav''" and wm = "()"
             and xb = "''offline.wav''" and sb = "''offline.wav''" and wb = "()"
             and ab = "''offline.wav''" and wb' = "()" and wb'' = "()"
             and m = "''no connection''"]
  by (simp add: stub_AudioFile_def stub_scribe_def stub_recognizer_def env0_def print_def)

subsection \<open>Which failures are observable as failures\<close>

text \<open>
  C2 as the specification states it does not hold: a transcribe request for a file that is
  not found returns \<open>None\<close>, and a translate request into \<open>"es"\<close>
  returns an ordinary string; neither leaves by an exception.
\<close>

theorem failure_as_None_counterexample:
  "outcome (process stub_AudioFile stub_scribe ''missing.wav'' (Some ''transcribe'') None env0) =
     Inr PyNone \<and>
   \<not> isl (outcome (process stub_AudioFile stub_scribe ''missing.wav'' (Some ''transcribe'')
                     None env0)) \<and>
   outcome (process stub_AudioFile stub_scribe ''Hello'' (Some ''translate'') (Some ''es'') env0) =
     Inr (PyStr ''Target language not supported'')"
  by (simp add: model_defs stub_defs)

text \<open>
  C2 (as the code has it). \<open>process\<close> leaves by an exception, which a caller observes as
  a failure, when the summarization or translation model raises, and when the
  transcription calls raise an exception that is none of \<open>UnknownValueError\<close>,
  \<open>RequestError\<close>, \<open>FileNotFoundError\<close>. The other failures come back as ordinary values:
  a caught transcription error as \<open>None\<close>, an unsupported target language as the string
  \<open>"Target language not supported"\<close>, an unknown task as the string \<open>"Invalid task."\<close>.
\<close>

theorem process_failure_outcomes:
  "(fst (transcribe_try AudioFile self xa e) = Inl exa \<longrightarrow> caught exa \<longrightarrow>
      outcome (process AudioFile self xa (Some ''transcribe'') lang e) = Inr PyNone) \<and>
   (fst (transcribe_try AudioFile self xb e) = Inl exb \<longrightarrow> \<not> caught exb \<longrightarrow>
      outcome (process AudioFile self xb (Some ''transcribe'') lang e) = Inl exb) \<and>
   (fst (summary_model self xc summary_kwargs (world e)) = Inl exc \<longrightarrow>
      outcome (process AudioFile self xc (Some ''summarize'') lang e) = Inl exc) \<and>
   (fst (translation_model self xd [] (world e)) = Inl exd \<longrightarrow>
      outcome (process AudioFile self xd (Some ''translate'') (Some ''fr'') e) = Inl exd) \<and>
   (l \<noteq> ''fr'' \<longrightarrow>
      outcome (process AudioFile self xe (Some ''translate'') (Some l) e) =
        Inr (PyStr ''Target language not supported'')) \<and>
   (t \<noteq> ''transcribe'' \<longrightarrow> t \<noteq> ''summarize'' \<longrightarrow> t \<noteq> ''translate'' \<longrightarrow>
      outcome (process AudioFile self xf (Some t) lang e) = Inr (PyStr ''Invalid task.''))"
proof (intro conjI impI)
  assume "fst (transcribe_try AudioFile self xa e) = Inl exa" and "caught exa"
  then show "outcome (process AudioFile self xa (Some ''transcribe'') lang e) = Inr PyNone"
    by (cases "transcribe_try AudioFile self xa e")
       (simp add: process_def transcribe_audio_caught)
next
  assume "fst (transcribe_try AudioFile self xb e) = Inl exb" and "\<not> caught exb"
  then show "outcome (process AudioFile self xb (Some ''transcribe'') lang e) = Inl exb"
    by (cases "transcribe_try AudioFile self xb e")
       (simp add: process_def transcribe_audio_uncaught outcome_def)
next
  assume "fst (summary_model self xc summary_kwargs (world e)) = Inl exc"
  then show "outcome (process AudioFile self xc (Some ''summarize'') lang e) = Inl exc"
    by (cases "summary_model self xc summary_kwargs (world e)")
       (simp add: process_def summarize_text_def ext_def outcome_def summary_kwargs_def)
next
  assume "fst (translation_model self xd [] (world e)) = Inl exd"
  then show "outcome (process AudioFile self xd (Some ''translate'') (Some ''fr'') e) = Inl exd"
    by (cases "translation_model self xd [] (world e)")
       (simp add: process_def translate_text_def ext_def outcome_def)
next
  assume "l \<noteq> ''fr''"
  then show "outcome (process AudioFile self xe (Some ''translate'') (Some l) e) =
        Inr (PyStr ''Target language not supported'')"
    by (simp add: process_def translate_text_def outcome_def)
next
  assume "t \<noteq> ''transcribe''" and "t \<noteq> ''summarize''" and "t \<noteq> ''translate''"
  then show "outcome (process AudioFile self xf (Some t) lang e) = Inr (PyStr ''Invalid task.'')"
    by (simp add: process_def outcome_def)
qed

theorem process_failure_outcomes_witness:
  "fst (transcribe_try stub_AudioFile down_scribe ''offline.wav'' env0) =
     Inl (RequestError ''no connection'') \<and>
   caught (RequestError ''no connection'') \<and>
   outcome (process stub_AudioFile down_scribe ''offline.wav'' (Some ''transcribe'') None env0) =
     Inr PyNone \<and>
   fst (transcribe_try stub_AudioFile down_scribe ''notes.txt'' env0) =
     Inl (OtherException ''Audio file could not be read'') \<and>
   \<not> caught (OtherException ''Audio file could not be read'') \<and>
   outcome (process stub_AudioFile down_scribe ''notes.txt'' (Some ''transcribe'') None env0) =
     Inl (OtherException ''Audio file could not be read'') \<and>
   fst (summary_model down_scribe ''Some long text.'' summary_kwargs (world env0)) =
     Inl (OtherException ''model not loaded'') \<and>
   outcome (process stub_AudioFile down_scribe ''Some long text.'' (Some ''summarize'') None env0) =
     Inl (OtherException ''model not loaded'') \<and>
   fst (translation_model down_scribe ''Hello'' [] (world env0)) =
     Inl (OtherException ''model not loaded'') \<and>
   outcome (process stub_AudioFile down_scribe ''Hello'' (Some ''translate'') (Some ''fr'') env0) =
     Inl (OtherException ''model not loaded'') \<and>
   ''es'' \<noteq> ''fr'' \<and>
   outcome (process stub_AudioFile down_scribe ''Hello'' (Some ''translate'') (Some ''es'') env0) =
     Inr (PyStr ''Target language not supported'') \<and>
   ''quiz'' \<noteq> ''transcribe'' \<and> ''quiz'' \<noteq> ''summarize'' \<and> ''quiz'' \<noteq> ''translate'' \<and>
   outcome (process stub_AudioFile down_scribe ''Hello'' (Some ''quiz'') None env0) =
     Inr (PyStr ''Invalid task.'')"
  using process_failure_outcomes
          [where AudioFile = stub_AudioFile and self = down_scribe and e = env0 and lang = None
             and xa = "''offline.wav''" and exa = "RequestError ''no connection''"
             and xb = "''notes.txt''" and exb = "OtherException ''Audio file could not be read''"
             and xc = "''Some long text.''" and exc = "OtherException ''model not loaded''"
             and xd = "''Hello''" and exd = "OtherException ''model not loaded''"
             and l = "''es''" and xe = "''Hello''"
             and t = "''quiz''" and xf = "''Hello''"]
  by (simp add: transcribe_try_def ext_def stub_AudioFile_def down_scribe_def
        stub_recognizer_def env0_def)

end
